theory Spec2Isabelle
  imports Main
begin

section \<open>The community list: flat nodes and the paged tree flattening\<close>

text \<open>
  The community-list component test (\<^verbatim>\<open>community-list.component.spec.ts\<close>) carries a
  stub of \<^verbatim>\<open>CommunityListService\<close> with the two methods
  \<^verbatim>\<open>getNextPageTopCommunities\<close> and \<^verbatim>\<open>loadCommunities\<close>. Both are embedded here.
  Observables are finite lists of emissions; \<^verbatim>\<open>observableOf(x)\<close> is the one-element
  list, so the list a \<^verbatim>\<open>loadCommunities\<close> call emits is the value of the model.

  Page sizes, page numbers and nesting levels are counts (the stub starts them at 2, 1
  and 0 and only ever increments them), so they are natural numbers, and
  \<^verbatim>\<open>xs.slice(0, n)\<close> is \<^term>\<open>take n xs\<close>: both stop at the end of a shorter list.
\<close>

subsection \<open>Data\<close>

text \<open>
  A \<^verbatim>\<open>Community\<close> or \<^verbatim>\<open>Collection\<close> as the mocks build it: \<^verbatim>\<open>id\<close>, \<^verbatim>\<open>uuid\<close> and
  \<^verbatim>\<open>name\<close>, written \<open>dsoId\<close>, \<open>dsoUuid\<close> and \<open>dsoName\<close> (\<open>id\<close> is the identity of HOL).
\<close>

record DSpaceObject =
  dsoId :: string
  dsoUuid :: string
  dsoName :: string

text \<open>
  The interface \<^verbatim>\<open>FlatNode\<close>: one row of the community browser. A node refers to its
  parent node, so the type is recursive and is a datatype with selectors rather than a
  record. \<^verbatim>\<open>null\<close> for the parent or the payload is \<^term>\<open>None\<close>.
\<close>

datatype FlatNode = FlatNode
  (isExpandable: bool)
  (name: string)
  (nodeId: string)
  (level: nat)
  (isExpanded: bool)
  (parent: "FlatNode option")
  (payload: "DSpaceObject option")
  (isShowMoreNode: bool)
  (currentCommunityPage: nat)
  (currentCollectionPage: nat)

text \<open>
  Modelled from the spec: \<^verbatim>\<open>toFlatNode\<close> of \<^verbatim>\<open>community-list-service.ts\<close>, which is
  imported by the test and is not among the sources. A flattened tree node is "a UI
  view-model record representing one row of a hierarchical community/collection browser,
  including nesting level and pagination state": the node takes its name and id from the
  community or collection, stores the level, the flags and the parent it is given, is no
  show-more node, and starts on page 1 of both of its child groups (the component test
  expects the first two of four collections, with page size 2, once a node is expanded).
\<close>

definition toFlatNode ::
  "DSpaceObject \<Rightarrow> bool \<Rightarrow> nat \<Rightarrow> bool \<Rightarrow> FlatNode option \<Rightarrow> FlatNode" where
  "toFlatNode c expandable lvl expanded par =
     FlatNode expandable (dsoName c) (dsoId c) lvl expanded par (Some c) False 1 1"

text \<open>
  Modelled from the spec: \<^verbatim>\<open>showMoreFlatNode\<close> of \<^verbatim>\<open>community-list-service.ts\<close>, not among
  the sources either. The row that stands for "show more": it is named by the kind of
  children it pages (\<^verbatim>\<open>'community'\<close> or \<^verbatim>\<open>'collection'\<close>), has the level and parent it is
  given, no payload, and is the only kind of node whose \<^verbatim>\<open>isShowMoreNode\<close> is true.
\<close>

definition showMoreFlatNode :: "string \<Rightarrow> nat \<Rightarrow> FlatNode option \<Rightarrow> FlatNode" where
  "showMoreFlatNode kind lvl par =
     FlatNode False kind kind lvl False par None True 1 1"

text \<open>
  An entry of \<^verbatim>\<open>mockTopCommunitiesWithChildrenArrays\<close>: a top community with its children
  as plain arrays.
\<close>

record TopCommunity =
  topId :: string
  topUuid :: string
  subcommunities :: "DSpaceObject list"
  collections :: "DSpaceObject list"

text \<open>The fields of the stub that the two methods read and write through \<^verbatim>\<open>this\<close>.\<close>

record CommunityListService =
  topPageSize :: nat
  topCurrentPage :: nat
  collectionPageSize :: nat
  subcommunityPageSize :: nat

text \<open>
  Modelled from the spec: \<^verbatim>\<open>isEmpty\<close> of \<^verbatim>\<open>shared/empty.util\<close>, which the sources import
  and do not contain. A value is empty when it is \<^verbatim>\<open>null\<close> or
  \<^verbatim>\<open>undefined\<close> (\<^term>\<open>None\<close>) or has length zero; arrays and strings are both lists here.
  On the result of \<^verbatim>\<open>Array.find\<close>, which is an object or \<^verbatim>\<open>undefined\<close>,
  \<^verbatim>\<open>isNotEmpty\<close> holds exactly for the object: that test is the \<open>Some\<close> branch of a
  case distinction in the model.
\<close>

definition isEmpty :: "'a list option \<Rightarrow> bool" where
  "isEmpty obj = (case obj of None \<Rightarrow> True | Some xs \<Rightarrow> length xs = 0)"

text \<open>
  Modelled from the spec: \<^verbatim>\<open>isNotEmpty\<close> of \<^verbatim>\<open>shared/empty.util\<close>, the negation of
  \<^verbatim>\<open>isEmpty\<close>.
\<close>

definition isNotEmpty :: "'a list option \<Rightarrow> bool" where
  "isNotEmpty obj = (\<not> isEmpty obj)"

subsection \<open>The stub's methods\<close>

text \<open>\<^verbatim>\<open>getNextPageTopCommunities() { this.topCurrentPage++; }\<close>\<close>

definition getNextPageTopCommunities :: "CommunityListService \<Rightarrow> CommunityListService" where
  "getNextPageTopCommunities this = this\<lparr>topCurrentPage := topCurrentPage this + 1\<rparr>"

text \<open>
  The two inner loops of \<^verbatim>\<open>loadCommunities\<close>: \<^verbatim>\<open>possibleSubcoms.map\<close> and
  \<^verbatim>\<open>possibleColls.map\<close> run only for their effect, which appends one flat node per child to
  an array that starts empty.
\<close>

definition childFlatnodes :: "FlatNode \<Rightarrow> DSpaceObject list \<Rightarrow> FlatNode list" where
  "childFlatnodes topNode possible =
     foldl (\<lambda>acc c. acc @ [toFlatNode c False (level topNode + 1) False (Some topNode)])
       [] possible"

text \<open>
  The body of the callback of \<^verbatim>\<open>topFlatnodes.map\<close>: one top node is appended to
  \<^verbatim>\<open>flatnodes\<close>, and, when it is among the expanded nodes and has an entry among the
  communities with children, so are the first pages of its children. \<^verbatim>\<open>Array.find\<close> is
  \<^term>\<open>find\<close>: the first element that satisfies the test, or nothing.
\<close>

definition addTopNode ::
  "CommunityListService \<Rightarrow> TopCommunity list \<Rightarrow> FlatNode list \<Rightarrow> FlatNode list \<Rightarrow> FlatNode
     \<Rightarrow> FlatNode list" where
  "addTopNode this topComs expandedNodes flatnodes topNode =
     (let flatnodes1 = flatnodes @ [topNode] in
      case find (\<lambda>expandedNode. nodeId expandedNode = nodeId topNode) expandedNodes of
        None \<Rightarrow> flatnodes1
      | Some expandedParent \<Rightarrow>
          (case find (\<lambda>topcom. topId topcom = nodeId topNode) topComs of
             None \<Rightarrow> flatnodes1
           | Some matchingTopComWithArrays \<Rightarrow>
               (let subComFlatnodes =
                      childFlatnodes topNode (subcommunities matchingTopComWithArrays);
                    collFlatnodes =
                      childFlatnodes topNode (collections matchingTopComWithArrays);
                    flatnodes2 =
                      (if isNotEmpty (Some subComFlatnodes) then
                         (let endSubComIndex =
                                subcommunityPageSize this * currentCommunityPage expandedParent;
                              shown = flatnodes1 @ take endSubComIndex subComFlatnodes
                          in if length subComFlatnodes > endSubComIndex
                             then shown @ [showMoreFlatNode ''community'' (level topNode + 1)
                                             (Some expandedParent)]
                             else shown)
                       else flatnodes1)
                in if isNotEmpty (Some collFlatnodes) then
                     (let endColIndex =
                            collectionPageSize this * currentCollectionPage expandedParent;
                          shown = flatnodes2 @ take endColIndex collFlatnodes
                      in if length collFlatnodes > endColIndex
                         then shown @ [showMoreFlatNode ''collection'' (level topNode + 1)
                                         (Some expandedParent)]
                         else shown)
                   else flatnodes2)))"

text \<open>
  \<^verbatim>\<open>loadCommunities(expandedNodes)\<close>. The arrays \<^verbatim>\<open>mockTopFlatnodesUnexpanded\<close> and
  \<^verbatim>\<open>mockTopCommunitiesWithChildrenArrays\<close> of the test are parameters, so that the model
  covers every list of top communities. \<^verbatim>\<open>expandedNodes\<close> is \<^verbatim>\<open>null\<close> (\<^term>\<open>None\<close>) or an
  array.
\<close>

definition loadCommunities ::
  "CommunityListService \<Rightarrow> FlatNode list \<Rightarrow> TopCommunity list \<Rightarrow> FlatNode list option
     \<Rightarrow> FlatNode list" where
  "loadCommunities this mockTopFlatnodesUnexpanded topComs expandedNodes =
     (let flatnodes = mockTopFlatnodesUnexpanded;
          currentPage = topCurrentPage this;
          elementsPerPage = topPageSize this;
          endPageIndex0 = currentPage * elementsPerPage;
          (endPageIndex, showMoreTopComNode) =
            (if endPageIndex0 \<ge> length flatnodes then (length flatnodes, False)
             else (endPageIndex0, True));
          unexpanded =
            (if showMoreTopComNode
             then take endPageIndex mockTopFlatnodesUnexpanded
                    @ [showMoreFlatNode ''community'' 0 None]
             else take endPageIndex mockTopFlatnodesUnexpanded)
      in case expandedNodes of
           None \<Rightarrow> unexpanded
         | Some expanded \<Rightarrow>
             if isEmpty (Some expanded) then unexpanded
             else
               (let topFlatnodes = take endPageIndex mockTopFlatnodesUnexpanded;
                    flatnodes' = foldl (addTopNode this topComs expanded) [] topFlatnodes
                in if showMoreTopComNode
                   then flatnodes' @ [showMoreFlatNode ''community'' 0 None]
                   else flatnodes'))"

subsection \<open>The fixtures of the component test\<close>

definition mockSubcommunities1Page1 :: "DSpaceObject list" where
  "mockSubcommunities1Page1 =
     [\<lparr>dsoId = ''ce64f48e-2c9b-411a-ac36-ee429c0e6a88'',
       dsoUuid = ''ce64f48e-2c9b-411a-ac36-ee429c0e6a88'', dsoName = ''subcommunity1''\<rparr>,
      \<lparr>dsoId = ''59ee713b-ee53-4220-8c3f-9860dc84fe33'',
       dsoUuid = ''59ee713b-ee53-4220-8c3f-9860dc84fe33'', dsoName = ''subcommunity2''\<rparr>]"

definition mockCollectionsPage1 :: "DSpaceObject list" where
  "mockCollectionsPage1 =
     [\<lparr>dsoId = ''e9dbf393-7127-415f-8919-55be34a6e9ed'',
       dsoUuid = ''e9dbf393-7127-415f-8919-55be34a6e9ed'', dsoName = ''collection1''\<rparr>,
      \<lparr>dsoId = ''59da2ff0-9bf4-45bf-88be-e35abd33f304'',
       dsoUuid = ''59da2ff0-9bf4-45bf-88be-e35abd33f304'', dsoName = ''collection2''\<rparr>]"

definition mockCollectionsPage2 :: "DSpaceObject list" where
  "mockCollectionsPage2 =
     [\<lparr>dsoId = ''a5159760-f362-4659-9e81-e3253ad91ede'',
       dsoUuid = ''a5159760-f362-4659-9e81-e3253ad91ede'', dsoName = ''collection3''\<rparr>,
      \<lparr>dsoId = ''a392e16b-fcf2-400a-9a88-53ef7ecbdcd3'',
       dsoUuid = ''a392e16b-fcf2-400a-9a88-53ef7ecbdcd3'', dsoName = ''collection4''\<rparr>]"

definition mockTopCommunitiesWithChildrenArrays :: "TopCommunity list" where
  "mockTopCommunitiesWithChildrenArrays =
     [\<lparr>topId = ''7669c72a-3f2a-451f-a3b9-9210e7a4c02f'',
       topUuid = ''7669c72a-3f2a-451f-a3b9-9210e7a4c02f'',
       subcommunities = mockSubcommunities1Page1, collections = []\<rparr>,
      \<lparr>topId = ''9076bd16-e69a-48d6-9e41-0238cb40d863'',
       topUuid = ''9076bd16-e69a-48d6-9e41-0238cb40d863'',
       subcommunities = [], collections = mockCollectionsPage1 @ mockCollectionsPage2\<rparr>,
      \<lparr>topId = ''efbf25e1-2d8c-4c28-8f3e-2e04c215be24'',
       topUuid = ''efbf25e1-2d8c-4c28-8f3e-2e04c215be24'',
       subcommunities = [], collections = []\<rparr>]"

definition community1 :: FlatNode where
  "community1 =
     toFlatNode \<lparr>dsoId = ''7669c72a-3f2a-451f-a3b9-9210e7a4c02f'',
                 dsoUuid = ''7669c72a-3f2a-451f-a3b9-9210e7a4c02f'', dsoName = ''community1''\<rparr>
       True 0 False None"

definition community2 :: FlatNode where
  "community2 =
     toFlatNode \<lparr>dsoId = ''9076bd16-e69a-48d6-9e41-0238cb40d863'',
                 dsoUuid = ''9076bd16-e69a-48d6-9e41-0238cb40d863'', dsoName = ''community2''\<rparr>
       True 0 False None"

definition community3 :: FlatNode where
  "community3 =
     toFlatNode \<lparr>dsoId = ''efbf25e1-2d8c-4c28-8f3e-2e04c215be24'',
                 dsoUuid = ''efbf25e1-2d8c-4c28-8f3e-2e04c215be24'', dsoName = ''community3''\<rparr>
       False 0 False None"

definition mockTopFlatnodesUnexpanded :: "FlatNode list" where
  "mockTopFlatnodesUnexpanded = [community1, community2, community3]"

definition communityListServiceStub :: CommunityListService where
  "communityListServiceStub =
     \<lparr>topPageSize = 2, topCurrentPage = 1, collectionPageSize = 2, subcommunityPageSize = 2\<rparr>"

subsection \<open>The flattening, stated declaratively\<close>

text \<open>
  What the flattening is meant to produce, written without the loops, to compare with
  \<open>loadCommunities\<close>: a group of children is cut at its page limit and followed by
  one show-more node when the cut left children out.
\<close>

definition spec_pagedGroup :: "nat \<Rightarrow> FlatNode list \<Rightarrow> FlatNode \<Rightarrow> FlatNode list" where
  "spec_pagedGroup limit nodes showMore =
     take limit nodes @ (if limit < length nodes then [showMore] else [])"

text \<open>
  The rows under an expanded top node: its paged subcommunities, then its paged
  collections; none when the node is not expanded or its children are not known.
\<close>

definition spec_expandedChildren ::
  "CommunityListService \<Rightarrow> TopCommunity list \<Rightarrow> FlatNode list \<Rightarrow> FlatNode \<Rightarrow> FlatNode list" where
  "spec_expandedChildren this topComs expandedNodes topNode =
     (case find (\<lambda>e. nodeId e = nodeId topNode) expandedNodes of
        None \<Rightarrow> []
      | Some ep \<Rightarrow>
          (case find (\<lambda>c. topId c = nodeId topNode) topComs of
             None \<Rightarrow> []
           | Some m \<Rightarrow>
               spec_pagedGroup (subcommunityPageSize this * currentCommunityPage ep)
                 (map (\<lambda>c. toFlatNode c False (level topNode + 1) False (Some topNode))
                    (subcommunities m))
                 (showMoreFlatNode ''community'' (level topNode + 1) (Some ep))
               @ spec_pagedGroup (collectionPageSize this * currentCollectionPage ep)
                   (map (\<lambda>c. toFlatNode c False (level topNode + 1) False (Some topNode))
                      (collections m))
                   (showMoreFlatNode ''collection'' (level topNode + 1) (Some ep))))"

section \<open>The object cache\<close>

text \<open>
  \<^verbatim>\<open>ObjectCacheService\<close> (\<^verbatim>\<open>object-cache.service.ts\<close>) is not among the sources; only its
  test \<^verbatim>\<open>object-cache.service.spec.ts\<close> is. The test fixes the shape of a cache entry
  (\<^verbatim>\<open>data\<close>, \<^verbatim>\<open>timeAdded\<close>, \<^verbatim>\<open>msToLive\<close>), replaces the clock by a fixed timestamp and
  replaces \<^verbatim>\<open>store.select\<close> by an observable of one entry or of \<^verbatim>\<open>undefined\<close>. Times are
  milliseconds and may be negative (the test's stale entry has \<^verbatim>\<open>msToLive: -1\<close>), so they
  are integers. The clock is the parameter \<open>now\<close>.
\<close>

record CacheableObject =
  self :: string
  resourceType :: string

record ObjectCacheEntry =
  data :: CacheableObject
  timeAdded :: int
  msToLive :: int

text \<open>The part of the store the service reads: the entries by self link.\<close>

type_synonym ObjectCacheState = "string \<rightharpoonup> ObjectCacheEntry"

text \<open>
  Modelled from the spec: the validity check of \<^verbatim>\<open>ObjectCacheService\<close>, absent from the
  sources. The time-to-live is the "duration after which a cached response is considered
  stale": an entry is out of date once the current time is past \<^verbatim>\<open>timeAdded + msToLive\<close>,
  and nothing (\<^verbatim>\<open>undefined\<close>) is never valid.
\<close>

definition isValid :: "int \<Rightarrow> ObjectCacheEntry option \<Rightarrow> bool" where
  "isValid now entry =
     (case entry of
        None \<Rightarrow> False
      | Some e \<Rightarrow> (let timeOutdated = timeAdded e + msToLive e;
                      isOutDated = (now > timeOutdated)
                  in \<not> isOutDated))"

text \<open>
  Modelled from the spec: \<^verbatim>\<open>store.select\<close> for one self link, which the test replaces by
  \<^verbatim>\<open>Observable.of(entry)\<close>: one emission, the entry stored under the key or
  \<^verbatim>\<open>undefined\<close>.
\<close>

definition select :: "ObjectCacheState \<Rightarrow> string \<Rightarrow> ObjectCacheEntry option list" where
  "select store selfLink = [store selfLink]"

text \<open>
  Modelled from the spec: \<^verbatim>\<open>getBySelfLink\<close> of \<^verbatim>\<open>ObjectCacheService\<close>, absent from the
  sources: "a straightforward TTL-gated key\<rightarrow>value lookup". The entries selected for
  the self link are gated by the validity check, and the cached object of each entry that
  passes is emitted.
\<close>

definition getBySelfLink :: "int \<Rightarrow> ObjectCacheState \<Rightarrow> string \<Rightarrow> CacheableObject list" where
  "getBySelfLink now store selfLink =
     concat (map (\<lambda>entry. case entry of None \<Rightarrow> [] | Some e \<Rightarrow> [data e])
       (filter (isValid now) (select store selfLink)))"

text \<open>
  Modelled from the spec: \<^verbatim>\<open>hasBySelfLink\<close> of \<^verbatim>\<open>ObjectCacheService\<close>, absent from the
  sources. The answer starts as \<^verbatim>\<open>false\<close> and is set by the validity of the first entry
  the store emits for the self link.
\<close>

definition hasBySelfLink :: "int \<Rightarrow> ObjectCacheState \<Rightarrow> string \<Rightarrow> bool" where
  "hasBySelfLink now store selfLink =
     foldl (\<lambda>result entry. isValid now entry) False (take 1 (select store selfLink))"

text \<open>The fixtures of the cache test; \<open>timestamp\<close> is the time the test freezes the clock at.\<close>

definition selfLink :: string where
  "selfLink = ''https://rest.api/endpoint/1698f1d3-be98-4c51-9fd8-6bfedcbd59b7''"

definition objectToCache :: CacheableObject where
  "objectToCache = \<lparr>self = selfLink, resourceType = ''item''\<rparr>"

definition cacheEntry :: "int \<Rightarrow> ObjectCacheEntry" where
  "cacheEntry timestamp = \<lparr>data = objectToCache, timeAdded = timestamp, msToLive = 900000\<rparr>"

definition invalidCacheEntry :: "int \<Rightarrow> ObjectCacheEntry" where
  "invalidCacheEntry timestamp = (cacheEntry timestamp)\<lparr>msToLive := - 1\<rparr>"

section \<open>The href of a find-all request\<close>

text \<open>
  \<^verbatim>\<open>DataService\<close> (\<^verbatim>\<open>data.service.ts\<close>) is not among the sources; its test
  \<^verbatim>\<open>data.service.spec.ts\<close> is, and describes \<^verbatim>\<open>getFindAllHref\<close> by six cases. The options
  are all optional; a missing option is \<^term>\<open>None\<close>. The field \<^verbatim>\<open>sort\<close> is written
  \<open>sortOptions\<close>, since \<open>sort\<close> sorts lists in HOL, and the direction of a sort is kept as
  the text the template prints for it.
\<close>

record SortOptions =
  sortField :: string
  sortDirection :: string

record FindAllOptions =
  scopeID :: "string option"
  currentPage :: "int option"
  elementsPerPage :: "int option"
  sortOptions :: "SortOptions option"
  startsWith :: "string option"

text \<open>
  A number inside a template string is printed in decimal, with a minus sign when it is
  negative.
\<close>

fun showNat :: "nat \<Rightarrow> string" where
  "showNat n =
     (if n < 10 then [''0123456789'' ! n]
      else showNat (n div 10) @ [''0123456789'' ! (n mod 10)])"

declare showNat.simps [simp del]

definition showInt :: "int \<Rightarrow> string" where
  "showInt i = (if i < 0 then ''-'' @ showNat (nat (- i)) else showNat (nat i))"

text \<open>\<^verbatim>\<open>Array.prototype.join\<close> on an array of strings.\<close>

fun join :: "string \<Rightarrow> string list \<Rightarrow> string" where
  "join sep [] = []"
| "join sep [x] = x"
| "join sep (x # y # ys) = x @ sep @ join sep (y # ys)"

text \<open>
  The one error of the test: \<^verbatim>\<open>getScopedEndpoint\<close> is abstract in \<^verbatim>\<open>DataService\<close>, and the
  test's subclass throws an \<^verbatim>\<open>Error\<close> with a message from it.
\<close>

datatype error = ThrownError string

text \<open>
  Modelled from the spec: \<^verbatim>\<open>getFindAllHref\<close> of \<^verbatim>\<open>DataService\<close>, absent from the sources,
  after the cases of its test. The href starts from the endpoint, or from the scoped
  endpoint when a scope is given (\<open>getScopedEndpoint\<close> is a parameter, as the method is
  abstract). One argument is collected for each option that is present, in the order
  page, size, sort, startsWith; the page is sent zero-indexed. The arguments, if any,
  follow the href after \<^verbatim>\<open>?\<close>, joined by \<^verbatim>\<open>&\<close>.
\<close>

definition getFindAllHref ::
  "(string \<Rightarrow> error + string) \<Rightarrow> string \<Rightarrow> FindAllOptions \<Rightarrow> error + string" where
  "getFindAllHref getScopedEndpoint endpoint options =
     (let result =
            (case scopeID options of
               Some scope \<Rightarrow> getScopedEndpoint scope
             | None \<Rightarrow> Inr endpoint);
          args1 = (case currentPage options of
                     Some p \<Rightarrow> [''page='' @ showInt (p - 1)] | None \<Rightarrow> []);
          args2 = (case elementsPerPage options of
                     Some n \<Rightarrow> args1 @ [''size='' @ showInt n] | None \<Rightarrow> args1);
          args3 = (case sortOptions options of
                     Some s \<Rightarrow> args2 @ [''sort='' @ sortField s @ '','' @ sortDirection s]
                   | None \<Rightarrow> args2);
          args = (case startsWith options of
                    Some w \<Rightarrow> args3 @ [''startsWith='' @ w] | None \<Rightarrow> args3)
      in case result of
           Inl e \<Rightarrow> Inl e
         | Inr href \<Rightarrow>
             if isNotEmpty (Some args) then Inr (href @ ''?'' @ join ''&'' args)
             else Inr href)"

text \<open>The fixtures of the test: the endpoint, no options, and the subclass's method.\<close>

definition endpoint :: string where
  "endpoint = ''https://rest.api/core''"

definition noOptions :: FindAllOptions where
  "noOptions = \<lparr>scopeID = None, currentPage = None, elementsPerPage = None,
     sortOptions = None, startsWith = None\<rparr>"

definition getScopedEndpoint :: "string \<Rightarrow> error + string" where
  "getScopedEndpoint scope = Inl (ThrownError ''getScopedEndpoint is abstract in DataService'')"

section \<open>The researcher profile service\<close>

text \<open>
  \<^verbatim>\<open>ResearcherProfileService\<close> (\<^verbatim>\<open>researcher-profile.service.ts\<close>) is among the sources. Its
  methods \<^verbatim>\<open>findById\<close>, \<^verbatim>\<open>delete\<close> and \<^verbatim>\<open>findByRelatedItem\<close> are embedded. The data
  service they delegate to is a parameter: the finite list of \<^verbatim>\<open>RemoteData\<close> values that
  the request emits. What the sources import and do not contain (\<^verbatim>\<open>RemoteData\<close>, the
  operators on it, \<^verbatim>\<open>Item.firstMetadata\<close>) is modelled beside them.
\<close>

text \<open>
  Modelled from the spec: \<^verbatim>\<open>RemoteData\<close> and its request state, absent from the sources. A
  response is pending, has failed or has succeeded, and may have gone stale after
  completing; \<^verbatim>\<open>isSuccess\<close> is the flag of a fresh success.
\<close>

datatype RequestEntryState =
  RequestPending | ResponsePending | Error | Success
  | ResponsePendingStale | ErrorStale | SuccessStale

record 'a RemoteData =
  state :: RequestEntryState
  errorMessage :: "string option"
  rdPayload :: "'a option"
  statusCode :: "nat option"

text \<open>
  Modelled from the spec: the getters of \<^verbatim>\<open>RemoteData\<close> that the service reads, absent
  from the sources with the class. A response has failed in the states of an error.
\<close>

definition hasFailed :: "'a RemoteData \<Rightarrow> bool" where
  "hasFailed rd = (state rd = Error \<or> state rd = ErrorStale)"

text \<open>
  Modelled from the spec: \<^verbatim>\<open>RemoteData.hasSucceeded\<close>: the states of a success, fresh or
  stale.
\<close>

definition hasSucceeded :: "'a RemoteData \<Rightarrow> bool" where
  "hasSucceeded rd = (state rd = Success \<or> state rd = SuccessStale)"

text \<open>
  Modelled from the spec: \<^verbatim>\<open>RemoteData.hasCompleted\<close>: the request is over, one way or
  the other.
\<close>

definition hasCompleted :: "'a RemoteData \<Rightarrow> bool" where
  "hasCompleted rd = (hasFailed rd \<or> hasSucceeded rd)"

text \<open>
  Modelled from the spec: \<^verbatim>\<open>RemoteData.isSuccess\<close>, the flag \<^verbatim>\<open>delete\<close> maps a response
  to: the state is that of a success.
\<close>

definition isSuccess :: "'a RemoteData \<Rightarrow> bool" where
  "isSuccess rd = (state rd = Success)"

text \<open>
  Modelled from the spec: the operator \<^verbatim>\<open>getAllCompletedRemoteData\<close> of
  \<^verbatim>\<open>shared/operators\<close>, absent from the sources: it lets every completed response
  through.
\<close>

definition getAllCompletedRemoteData :: "'a RemoteData list \<Rightarrow> 'a RemoteData list" where
  "getAllCompletedRemoteData source = filter hasCompleted source"

text \<open>
  Modelled from the spec: the operator \<^verbatim>\<open>getFirstCompletedRemoteData\<close> of
  \<^verbatim>\<open>shared/operators\<close>, absent from the sources: it emits the first completed response
  and nothing else, and nothing at all while no response has completed.
\<close>

definition getFirstCompletedRemoteData :: "'a RemoteData list \<Rightarrow> 'a RemoteData list" where
  "getFirstCompletedRemoteData source =
     (case find hasCompleted source of None \<Rightarrow> [] | Some rd \<Rightarrow> [rd])"

text \<open>
  Modelled from the spec: \<^verbatim>\<open>createFailedRemoteDataObject$\<close> of
  \<^verbatim>\<open>shared/remote-data.utils\<close>, absent from the sources, called with no argument: an
  observable of one response in the state of an error, with no message, payload or status.
\<close>

definition createFailedRemoteDataObject :: "'a RemoteData list" where
  "createFailedRemoteDataObject =
     [\<lparr>state = Error, errorMessage = None, rdPayload = None, statusCode = None\<rparr>]"

text \<open>
  An item with its metadata: the values by metadata key, in order. A value's authority
  may be missing. The fields \<^verbatim>\<open>id\<close> and \<^verbatim>\<open>value\<close> are written \<open>itemId\<close>, \<open>rpId\<close> and
  \<open>mdValue\<close>.
\<close>

record MetadataValue =
  mdValue :: string
  authority :: "string option"

record Item =
  itemId :: string
  metadata :: "string \<rightharpoonup> MetadataValue list"

record ResearcherProfile =
  rpId :: string
  visible :: bool

text \<open>
  Modelled from the spec: \<^verbatim>\<open>Item.firstMetadata\<close> for one key, absent from the sources: the
  first value stored under the key, or \<^verbatim>\<open>undefined\<close>.
\<close>

definition firstMetadata :: "Item \<Rightarrow> string \<Rightarrow> MetadataValue option" where
  "firstMetadata item key =
     (case metadata item key of
        None \<Rightarrow> None
      | Some [] \<Rightarrow> None
      | Some (v # _) \<Rightarrow> Some v)"

text \<open>
  \<^verbatim>\<open>findById(uuid, useCachedVersionIfAvailable = true, reRequestOnStale = true)\<close>, called
  with the defaults. The result has two parts: what the observable emits, and the uuids
  for which the data service was asked, which is the effect of the call.
\<close>

definition findById ::
  "(string \<Rightarrow> bool \<Rightarrow> bool \<Rightarrow> 'a RemoteData list) \<Rightarrow> string
     \<Rightarrow> 'a RemoteData list \<times> string list" where
  "findById dataService_findById uuid =
     (getAllCompletedRemoteData (dataService_findById uuid True True), [uuid])"

text \<open>\<^verbatim>\<open>delete(researcherProfile)\<close>: the booleans the returned observable emits.\<close>

definition delete ::
  "(string \<Rightarrow> unit RemoteData list) \<Rightarrow> ResearcherProfile \<Rightarrow> bool list" where
  "delete dataService_delete researcherProfile =
     map (\<lambda>response. isSuccess response)
       (getFirstCompletedRemoteData (dataService_delete (rpId researcherProfile)))"

text \<open>
  \<^verbatim>\<open>findByRelatedItem(item)\<close>. \<^verbatim>\<open>item.firstMetadata('dspace.object.owner')?.authority\<close> is
  \<^verbatim>\<open>undefined\<close> when there is no such metadata value, and the value's authority otherwise.
  In the branch where \<open>profileId\<close> is not empty it is a string, so the case \<open>None\<close> below
  is never taken.
\<close>

definition findByRelatedItem ::
  "(string \<Rightarrow> bool \<Rightarrow> bool \<Rightarrow> 'a RemoteData list) \<Rightarrow> Item
     \<Rightarrow> 'a RemoteData list \<times> string list" where
  "findByRelatedItem dataService_findById item =
     (let profileId = Option.bind (firstMetadata item ''dspace.object.owner'') authority
      in if isEmpty profileId then (createFailedRemoteDataObject, [])
         else (case profileId of
                 Some uuid \<Rightarrow> findById dataService_findById uuid
               | None \<Rightarrow> (createFailedRemoteDataObject, [])))"

text \<open>
  Responses and items to run the methods on: a delete request that is still pending, one
  that succeeded and one that was refused; an item with no owner metadata and an item
  owned by a profile.
\<close>

definition pendingRD :: "'a RemoteData" where
  "pendingRD = \<lparr>state = ResponsePending, errorMessage = None, rdPayload = None,
     statusCode = None\<rparr>"

definition successRD :: "'a RemoteData" where
  "successRD = \<lparr>state = Success, errorMessage = None, rdPayload = None,
     statusCode = Some 204\<rparr>"

definition failedRD :: "'a RemoteData" where
  "failedRD = \<lparr>state = Error, errorMessage = Some ''Forbidden'', rdPayload = None,
     statusCode = Some 403\<rparr>"

definition itemWithoutOwner :: Item where
  "itemWithoutOwner = \<lparr>itemId = ''item-1'', metadata = Map.empty\<rparr>"

definition itemWithOwner :: Item where
  "itemWithOwner =
     \<lparr>itemId = ''item-2'',
      metadata = [''dspace.object.owner'' \<mapsto>
        [\<lparr>mdValue = ''Doe, Jane'', authority = Some ''profile-1''\<rparr>]]\<rparr>"

section \<open>Properties of the community list\<close>

subsection \<open>The loops in closed form\<close>

lemma foldl_snoc_map: "foldl (\<lambda>acc c. acc @ [f c]) a xs = a @ map f xs"
  by (induction xs arbitrary: a) simp_all

lemma childFlatnodes_map:
  "childFlatnodes t cs = map (\<lambda>c. toFlatNode c False (level t + 1) False (Some t)) cs"
  by (simp add: childFlatnodes_def foldl_snoc_map)

text \<open>
  One step of the outer loop appends the top node and the rows under it.
\<close>

lemma addTopNode_closed:
  "addTopNode this topComs ex acc t = acc @ t # spec_expandedChildren this topComs ex t"
  by (simp add: addTopNode_def spec_expandedChildren_def spec_pagedGroup_def
      childFlatnodes_map isNotEmpty_def isEmpty_def Let_def split: option.splits)

lemma foldl_addTopNode:
  "foldl (addTopNode this topComs ex) acc ts =
     acc @ concat (map (\<lambda>t. t # spec_expandedChildren this topComs ex t) ts)"
proof (induction ts arbitrary: acc)
  case Nil
  show ?case by simp
next
  case (Cons t ts)
  have "foldl (addTopNode this topComs ex) acc (t # ts) =
          foldl (addTopNode this topComs ex) (addTopNode this topComs ex acc t) ts"
    by simp
  also have "\<dots> = addTopNode this topComs ex acc t
          @ concat (map (\<lambda>t. t # spec_expandedChildren this topComs ex t) ts)"
    by (rule Cons.IH)
  also have "\<dots> = acc @ concat (map (\<lambda>t. t # spec_expandedChildren this topComs ex t) (t # ts))"
    by (simp add: addTopNode_closed)
  finally show ?case .
qed

lemma loadCommunities_unexpanded:
  "loadCommunities this tops topComs None =
     take (topCurrentPage this * topPageSize this) tops
       @ (if topCurrentPage this * topPageSize this < length tops
          then [showMoreFlatNode ''community'' 0 None] else [])"
  by (simp add: loadCommunities_def Let_def)

lemma loadCommunities_empty:
  "loadCommunities this tops topComs (Some []) =
     take (topCurrentPage this * topPageSize this) tops
       @ (if topCurrentPage this * topPageSize this < length tops
          then [showMoreFlatNode ''community'' 0 None] else [])"
  by (simp add: loadCommunities_def Let_def isEmpty_def)

lemma loadCommunities_expanded:
  "ex \<noteq> [] \<Longrightarrow> loadCommunities this tops topComs (Some ex) =
     concat (map (\<lambda>t. t # spec_expandedChildren this topComs ex t)
        (take (topCurrentPage this * topPageSize this) tops))
       @ (if topCurrentPage this * topPageSize this < length tops
          then [showMoreFlatNode ''community'' 0 None] else [])"
  by (simp add: loadCommunities_def Let_def isEmpty_def foldl_addTopNode)

subsection \<open>Fields of the nodes the flattening builds\<close>

lemma level_toFlatNode: "level (toFlatNode c e l x p) = l"
  by (simp add: toFlatNode_def)

lemma parent_toFlatNode: "parent (toFlatNode c e l x p) = p"
  by (simp add: toFlatNode_def)

lemma isShowMoreNode_toFlatNode: "\<not> isShowMoreNode (toFlatNode c e l x p)"
  by (simp add: toFlatNode_def)

lemma showMoreFlatNode_sel:
  "level (showMoreFlatNode k l p) = l" "parent (showMoreFlatNode k l p) = p"
  "isShowMoreNode (showMoreFlatNode k l p)"
  by (simp_all add: showMoreFlatNode_def)

lemma spec_pagedGroup_set:
  "c \<in> set (spec_pagedGroup n xs sm) \<Longrightarrow> c \<in> set xs \<or> c = sm"
  by (auto simp: spec_pagedGroup_def dest: in_set_takeD split: if_splits)

lemma spec_expandedChildren_nodes:
  assumes "c \<in> set (spec_expandedChildren this topComs expanded topNode)"
  shows "level c = level topNode + 1
    \<and> (if isShowMoreNode c
        then \<exists>ep. find (\<lambda>e. nodeId e = nodeId topNode) expanded = Some ep
               \<and> nodeId ep = nodeId topNode \<and> parent c = Some ep
        else parent c = Some topNode)"
proof (cases "find (\<lambda>e. nodeId e = nodeId topNode) expanded")
  case None
  with assms show ?thesis by (simp add: spec_expandedChildren_def)
next
  case (Some ep)
  note ep = this
  have id: "nodeId ep = nodeId topNode"
    using ep by (auto simp: find_Some_iff)
  show ?thesis
  proof (cases "find (\<lambda>c. topId c = nodeId topNode) topComs")
    case None
    with assms ep show ?thesis by (simp add: spec_expandedChildren_def)
  next
    case (Some m)
    let ?f = "\<lambda>c. toFlatNode c False (level topNode + 1) False (Some topNode)"
    from assms ep Some
    consider "c \<in> set (map ?f (subcommunities m))"
      | "c = showMoreFlatNode ''community'' (level topNode + 1) (Some ep)"
      | "c \<in> set (map ?f (collections m))"
      | "c = showMoreFlatNode ''collection'' (level topNode + 1) (Some ep)"
      by (auto simp: spec_expandedChildren_def dest!: spec_pagedGroup_set)
    then show ?thesis
    proof cases
      case 1
      then show ?thesis
        by (auto simp: level_toFlatNode parent_toFlatNode isShowMoreNode_toFlatNode)
    next
      case 2
      then show ?thesis by (simp add: showMoreFlatNode_sel ep id)
    next
      case 3
      then show ?thesis
        by (auto simp: level_toFlatNode parent_toFlatNode isShowMoreNode_toFlatNode)
    next
      case 4
      then show ?thesis by (simp add: showMoreFlatNode_sel ep id)
    qed
  qed
qed

subsection \<open>Facts about the fixtures\<close>

lemma mock_ids:
  "nodeId community1 = ''7669c72a-3f2a-451f-a3b9-9210e7a4c02f''"
  "nodeId community2 = ''9076bd16-e69a-48d6-9e41-0238cb40d863''"
  "nodeId community3 = ''efbf25e1-2d8c-4c28-8f3e-2e04c215be24''"
  "level community1 = 0" "level community2 = 0" "level community3 = 0"
  "currentCommunityPage community1 = 1" "currentCollectionPage community1 = 1"
  "currentCommunityPage community2 = 1" "currentCollectionPage community2 = 1"
  by (simp_all add: community1_def community2_def community3_def toFlatNode_def)

lemma stub_fields:
  "topCurrentPage communityListServiceStub = 1"
  "topPageSize communityListServiceStub = 2"
  "collectionPageSize communityListServiceStub = 2"
  "subcommunityPageSize communityListServiceStub = 2"
  by (simp_all add: communityListServiceStub_def)

lemma mock_lengths:
  "length mockSubcommunities1Page1 = 2"
  "length mockCollectionsPage1 = 2" "length mockCollectionsPage2 = 2"
  "length mockTopFlatnodesUnexpanded = 3"
  by (simp_all add: mockSubcommunities1Page1_def mockCollectionsPage1_def
      mockCollectionsPage2_def mockTopFlatnodesUnexpanded_def)

lemma find_community1:
  "find (\<lambda>e. nodeId e = nodeId community1) [community1] = Some community1"
  "find (\<lambda>e. nodeId e = nodeId community2) [community1] = None"
  by (simp_all add: mock_ids)

lemma find_community2:
  "find (\<lambda>e. nodeId e = nodeId community2) [community2] = Some community2"
  "find (\<lambda>e. nodeId e = nodeId community1) [community2] = None"
  by (simp_all add: mock_ids)

lemma find_topcom1:
  "find (\<lambda>c. topId c = nodeId community1) mockTopCommunitiesWithChildrenArrays =
     Some \<lparr>topId = ''7669c72a-3f2a-451f-a3b9-9210e7a4c02f'',
       topUuid = ''7669c72a-3f2a-451f-a3b9-9210e7a4c02f'',
       subcommunities = mockSubcommunities1Page1, collections = []\<rparr>"
  by (simp add: mock_ids mockTopCommunitiesWithChildrenArrays_def)

lemma find_topcom2:
  "find (\<lambda>c. topId c = nodeId community2) mockTopCommunitiesWithChildrenArrays =
     Some \<lparr>topId = ''9076bd16-e69a-48d6-9e41-0238cb40d863'',
       topUuid = ''9076bd16-e69a-48d6-9e41-0238cb40d863'',
       subcommunities = [], collections = mockCollectionsPage1 @ mockCollectionsPage2\<rparr>"
  by (simp add: mock_ids mockTopCommunitiesWithChildrenArrays_def)

lemma children_community1:
  "spec_expandedChildren communityListServiceStub mockTopCommunitiesWithChildrenArrays
     [community1] community1 =
   map (\<lambda>c. toFlatNode c False 1 False (Some community1)) mockSubcommunities1Page1"
  unfolding spec_expandedChildren_def find_community1 find_topcom1
  by (simp add: spec_pagedGroup_def stub_fields mock_ids mock_lengths)

lemma children_community2:
  "spec_expandedChildren communityListServiceStub mockTopCommunitiesWithChildrenArrays
     [community1] community2 = []"
  by (simp add: spec_expandedChildren_def mock_ids)

subsection \<open>Paging of the top communities\<close>

text \<open>
  Claim C3. For every list of top-community nodes and every pagination state,
  \<open>loadCommunities\<close> with no expanded nodes (\<^verbatim>\<open>null\<close> or an empty array) returns the
  first \<open>topCurrentPage * topPageSize\<close> top-community nodes, or all of them when there
  are no more than that, and ends with one show-more node exactly when the page limit cut
  top communities off.
\<close>

theorem loadCommunities_no_expanded:
  "loadCommunities this tops topComs None =
     (if topCurrentPage this * topPageSize this < length tops
      then take (topCurrentPage this * topPageSize this) tops
             @ [showMoreFlatNode ''community'' 0 None]
      else tops)
   \<and> loadCommunities this tops topComs (Some []) = loadCommunities this tops topComs None"
  by (simp add: loadCommunities_unexpanded loadCommunities_empty)

text \<open>
  The first page of the component test: two of the three top communities and the show-more
  node.
\<close>

theorem loadCommunities_no_expanded_witness:
  "loadCommunities communityListServiceStub mockTopFlatnodesUnexpanded
     mockTopCommunitiesWithChildrenArrays None =
   [community1, community2, showMoreFlatNode ''community'' 0 None]"
  using loadCommunities_no_expanded [of communityListServiceStub mockTopFlatnodesUnexpanded
      mockTopCommunitiesWithChildrenArrays]
  by (simp add: stub_fields mock_lengths) (simp add: mockTopFlatnodesUnexpanded_def)

text \<open>
  Claim C7. \<open>getNextPageTopCommunities\<close> increments the current page of the top level
  by exactly one and changes nothing else, so the next flattening is cut at one more page
  of top communities. Starting from the first page, the flattened
  tree after one activation of show-more holds \<open>min (2 * topPageSize) total\<close> top
  communities, and the top-level show-more node is gone exactly when these are all the
  top communities.
\<close>

theorem getNextPageTopCommunities_shows_second_page:
  "topCurrentPage (getNextPageTopCommunities this) = topCurrentPage this + 1
   \<and> topPageSize (getNextPageTopCommunities this) = topPageSize this
   \<and> collectionPageSize (getNextPageTopCommunities this) = collectionPageSize this
   \<and> subcommunityPageSize (getNextPageTopCommunities this) = subcommunityPageSize this
   \<and> loadCommunities (getNextPageTopCommunities this) tops topComs None =
       take ((topCurrentPage this + 1) * topPageSize this) tops
         @ (if length tops \<le> (topCurrentPage this + 1) * topPageSize this then []
            else [showMoreFlatNode ''community'' 0 None])
   \<and> (topCurrentPage this = 1 \<longrightarrow>
        loadCommunities (getNextPageTopCommunities this) tops topComs None =
          take (min (2 * topPageSize this) (length tops)) tops
            @ (if length tops \<le> 2 * topPageSize this then []
               else [showMoreFlatNode ''community'' 0 None])
        \<and> length (take (min (2 * topPageSize this) (length tops)) tops) =
            min (2 * topPageSize this) (length tops)
        \<and> ((take (min (2 * topPageSize this) (length tops)) tops = tops)
             = (length tops \<le> 2 * topPageSize this)))"
  by (auto simp: loadCommunities_unexpanded getNextPageTopCommunities_def mult_2
      take_all_iff)

text \<open>
  The component test after the click on show-more: all three top communities and no
  show-more node.
\<close>

theorem getNextPageTopCommunities_shows_second_page_witness:
  "topCurrentPage communityListServiceStub = 1
   \<and> topCurrentPage (getNextPageTopCommunities communityListServiceStub) = 2
   \<and> loadCommunities (getNextPageTopCommunities communityListServiceStub)
         mockTopFlatnodesUnexpanded mockTopCommunitiesWithChildrenArrays None =
       [community1, community2, community3]"
  using getNextPageTopCommunities_shows_second_page [of communityListServiceStub
      mockTopFlatnodesUnexpanded mockTopCommunitiesWithChildrenArrays]
  by (simp add: stub_fields mock_lengths) (simp add: mockTopFlatnodesUnexpanded_def)

subsection \<open>Paging of the children of an expanded node\<close>

text \<open>
  Claim C4. For a top node on the current page that is expanded and whose children are
  known, the output of \<open>loadCommunities\<close> is: the rows of the top nodes before it, the
  node, the first \<open>subcommunityPageSize * currentCommunityPage\<close> of its subcommunities,
  a show-more node exactly when it has more subcommunities than that, the first
  \<open>collectionPageSize * currentCollectionPage\<close> of its collections, a show-more node
  exactly when it has more collections than that, and then the rows of the later top
  nodes and the top-level show-more node.
\<close>

theorem expanded_node_children_are_paged:
  assumes "expanded \<noteq> []"
    and "i < length tops" and "i < topCurrentPage this * topPageSize this"
    and "tops ! i = topNode"
    and "find (\<lambda>e. nodeId e = nodeId topNode) expanded = Some expandedParent"
    and "find (\<lambda>c. topId c = nodeId topNode) topComs = Some m"
  shows "loadCommunities this tops topComs (Some expanded) =
      foldl (addTopNode this topComs expanded) [] (take i tops)
      @ [topNode]
      @ take (subcommunityPageSize this * currentCommunityPage expandedParent)
          (map (\<lambda>c. toFlatNode c False (level topNode + 1) False (Some topNode))
             (subcommunities m))
      @ (if subcommunityPageSize this * currentCommunityPage expandedParent
              < length (subcommunities m)
         then [showMoreFlatNode ''community'' (level topNode + 1) (Some expandedParent)]
         else [])
      @ take (collectionPageSize this * currentCollectionPage expandedParent)
          (map (\<lambda>c. toFlatNode c False (level topNode + 1) False (Some topNode))
             (collections m))
      @ (if collectionPageSize this * currentCollectionPage expandedParent
              < length (collections m)
         then [showMoreFlatNode ''collection'' (level topNode + 1) (Some expandedParent)]
         else [])
      @ foldl (addTopNode this topComs expanded) []
          (drop (Suc i) (take (topCurrentPage this * topPageSize this) tops))
      @ (if topCurrentPage this * topPageSize this < length tops
         then [showMoreFlatNode ''community'' 0 None] else [])"
proof -
  let ?n = "topCurrentPage this * topPageSize this"
  let ?seg = "\<lambda>t. t # spec_expandedChildren this topComs expanded t"
  have i: "i < length (take ?n tops)"
    using assms(2,3) by simp
  have split: "take ?n tops = take i tops @ topNode # drop (Suc i) (take ?n tops)"
    using id_take_nth_drop [OF i] assms(3,4) by (simp add: min_def)
  have "concat (map ?seg (take ?n tops)) =
          concat (map ?seg (take i tops)) @ ?seg topNode
            @ concat (map ?seg (drop (Suc i) (take ?n tops)))"
    by (subst split) simp
  moreover have "spec_expandedChildren this topComs expanded topNode =
      take (subcommunityPageSize this * currentCommunityPage expandedParent)
          (map (\<lambda>c. toFlatNode c False (level topNode + 1) False (Some topNode))
             (subcommunities m))
      @ (if subcommunityPageSize this * currentCommunityPage expandedParent
              < length (subcommunities m)
         then [showMoreFlatNode ''community'' (level topNode + 1) (Some expandedParent)]
         else [])
      @ take (collectionPageSize this * currentCollectionPage expandedParent)
          (map (\<lambda>c. toFlatNode c False (level topNode + 1) False (Some topNode))
             (collections m))
      @ (if collectionPageSize this * currentCollectionPage expandedParent
              < length (collections m)
         then [showMoreFlatNode ''collection'' (level topNode + 1) (Some expandedParent)]
         else [])"
    using assms(5,6) by (simp add: spec_expandedChildren_def spec_pagedGroup_def)
  ultimately show ?thesis
    using assms(1) by (simp add: loadCommunities_expanded foldl_addTopNode)
qed

text \<open>
  The component test with the second top community expanded: two of its four collections
  and a show-more node for the rest.
\<close>

theorem expanded_node_children_are_paged_witness:
  "loadCommunities communityListServiceStub mockTopFlatnodesUnexpanded
     mockTopCommunitiesWithChildrenArrays (Some [community2]) =
   [community1, community2]
   @ map (\<lambda>c. toFlatNode c False 1 False (Some community2)) mockCollectionsPage1
   @ [showMoreFlatNode ''collection'' 1 (Some community2),
      showMoreFlatNode ''community'' 0 None]"
proof -
  have stub: "topCurrentPage communityListServiceStub = 1"
    "topPageSize communityListServiceStub = 2"
    "collectionPageSize communityListServiceStub = 2"
    "subcommunityPageSize communityListServiceStub = 2"
    by (simp_all add: communityListServiceStub_def)
  have a1: "[community2] \<noteq> []" by simp
  have a2: "1 < length mockTopFlatnodesUnexpanded"
    by (simp add: mockTopFlatnodesUnexpanded_def)
  have a3: "1 < topCurrentPage communityListServiceStub * topPageSize communityListServiceStub"
    by (simp add: stub)
  have a4: "mockTopFlatnodesUnexpanded ! 1 = community2"
    by (simp add: mockTopFlatnodesUnexpanded_def)
  have pre: "foldl (addTopNode communityListServiceStub mockTopCommunitiesWithChildrenArrays
      [community2]) [] (take (Suc 0) mockTopFlatnodesUnexpanded) = [community1]"
    by (simp add: mockTopFlatnodesUnexpanded_def addTopNode_def mock_ids)
  have post: "drop (Suc 1) (take (1 * 2) mockTopFlatnodesUnexpanded) = []"
    by (simp add: mockTopFlatnodesUnexpanded_def)
  have colls: "take 2 (map (\<lambda>c. toFlatNode c False (Suc 0) False (Some community2))
       (mockCollectionsPage1 @ mockCollectionsPage2)) =
     map (\<lambda>c. toFlatNode c False (Suc 0) False (Some community2)) mockCollectionsPage1"
    by (simp add: mockCollectionsPage1_def)
  have len: "length mockCollectionsPage1 = 2" "length mockCollectionsPage2 = 2"
    "length mockTopFlatnodesUnexpanded = 3"
    by (simp_all add: mockCollectionsPage1_def mockCollectionsPage2_def
        mockTopFlatnodesUnexpanded_def)
  show ?thesis
    using expanded_node_children_are_paged [OF a1 a2 a3 a4 find_community2(1) find_topcom2]
    by (simp add: stub pre post colls len mock_ids)
qed

subsection \<open>Level and parent of the child rows\<close>

text \<open>
  Claim C5. The rows that one step of the flattening adds for a top node start with the
  node itself. Every row after it is one level below the node. A child made by
  \<open>toFlatNode\<close> refers to the top node as its parent; a show-more row refers to the
  expanded node found for the top node, which has the same id.
\<close>

theorem child_nodes_level_and_parent:
  "hd (addTopNode this topComs expanded [] topNode) = topNode
   \<and> (\<forall>c \<in> set (tl (addTopNode this topComs expanded [] topNode)).
         level c = level topNode + 1
         \<and> (if isShowMoreNode c
             then \<exists>ep. find (\<lambda>e. nodeId e = nodeId topNode) expanded = Some ep
                    \<and> nodeId ep = nodeId topNode \<and> parent c = Some ep
             else parent c = Some topNode))"
proof (intro conjI ballI)
  show "hd (addTopNode this topComs expanded [] topNode) = topNode"
    by (simp add: addTopNode_closed)
next
  fix c
  assume "c \<in> set (tl (addTopNode this topComs expanded [] topNode))"
  then have c: "c \<in> set (spec_expandedChildren this topComs expanded topNode)"
    by (simp add: addTopNode_closed)
  from spec_expandedChildren_nodes [OF c]
  show "level c = level topNode + 1" by (rule conjunct1)
  from spec_expandedChildren_nodes [OF c]
  show "if isShowMoreNode c
     then \<exists>ep. find (\<lambda>e. nodeId e = nodeId topNode) expanded = Some ep
            \<and> nodeId ep = nodeId topNode \<and> parent c = Some ep
     else parent c = Some topNode" by (rule conjunct2)
qed

text \<open>
  The first subcommunity of the first top community, once that community is expanded.
\<close>

theorem child_nodes_level_and_parent_witness:
  "toFlatNode (hd mockSubcommunities1Page1) False 1 False (Some community1)
     \<in> set (tl (addTopNode communityListServiceStub mockTopCommunitiesWithChildrenArrays
                  [community1] [] community1))
   \<and> level (toFlatNode (hd mockSubcommunities1Page1) False 1 False (Some community1)) =
       level community1 + 1
   \<and> parent (toFlatNode (hd mockSubcommunities1Page1) False 1 False (Some community1)) =
       Some community1"
proof -
  let ?c = "toFlatNode (hd mockSubcommunities1Page1) False 1 False (Some community1)"
  have mem: "?c \<in> set (tl (addTopNode communityListServiceStub
      mockTopCommunitiesWithChildrenArrays [community1] [] community1))"
    by (simp add: addTopNode_closed children_community1)
      (simp add: mockSubcommunities1Page1_def)
  have "\<not> isShowMoreNode ?c"
    by (simp add: toFlatNode_def)
  with mem child_nodes_level_and_parent [of communityListServiceStub
      mockTopCommunitiesWithChildrenArrays "[community1]" community1,
      THEN conjunct2, THEN bspec, OF mem]
  show ?thesis by simp
qed

subsection \<open>Order of the flattened list\<close>

text \<open>
  Claim C6. With expanded nodes, the output of \<open>loadCommunities\<close> goes through the top
  nodes of the current page in their order; each is followed at once by its paged
  subcommunities and then its paged collections (none when it is not expanded), and the
  top-level show-more node, when there is one, is the last element.
\<close>

theorem loadCommunities_order:
  assumes "expanded \<noteq> []"
  shows "loadCommunities this tops topComs (Some expanded) =
      concat (map (\<lambda>topNode. topNode # spec_expandedChildren this topComs expanded topNode)
         (take (topCurrentPage this * topPageSize this) tops))
      @ (if topCurrentPage this * topPageSize this < length tops
         then [showMoreFlatNode ''community'' 0 None] else [])
    \<and> (topCurrentPage this * topPageSize this < length tops \<longrightarrow>
      last (loadCommunities this tops topComs (Some expanded)) =
        showMoreFlatNode ''community'' 0 None)"
  using assms by (simp add: loadCommunities_expanded)

text \<open>
  The component test with the first top community expanded.
\<close>

theorem loadCommunities_order_witness:
  "[community1] \<noteq> []
   \<and> topCurrentPage communityListServiceStub * topPageSize communityListServiceStub
       < length mockTopFlatnodesUnexpanded
   \<and> loadCommunities communityListServiceStub mockTopFlatnodesUnexpanded
       mockTopCommunitiesWithChildrenArrays (Some [community1]) =
     community1
       # map (\<lambda>c. toFlatNode c False 1 False (Some community1)) mockSubcommunities1Page1
       @ [community2, showMoreFlatNode ''community'' 0 None]
   \<and> last (loadCommunities communityListServiceStub mockTopFlatnodesUnexpanded
       mockTopCommunitiesWithChildrenArrays (Some [community1])) =
     showMoreFlatNode ''community'' 0 None"
proof -
  have ne: "[community1] \<noteq> []" by simp
  have cut: "topCurrentPage communityListServiceStub * topPageSize communityListServiceStub
       < length mockTopFlatnodesUnexpanded"
    by (simp add: stub_fields mock_lengths)
  have tops: "take 2 mockTopFlatnodesUnexpanded = [community1, community2]"
    by (simp add: mockTopFlatnodesUnexpanded_def)
  from loadCommunities_order [OF ne, of communityListServiceStub mockTopFlatnodesUnexpanded
      mockTopCommunitiesWithChildrenArrays] cut
  show ?thesis
    by (simp add: stub_fields mock_lengths tops children_community1 children_community2)
qed

section \<open>Properties of the object cache\<close>

lemma getBySelfLink_lookup:
  "getBySelfLink now store k =
     (case store k of
        None \<Rightarrow> []
      | Some e \<Rightarrow> if now > timeAdded e + msToLive e then [] else [data e])"
  by (simp add: getBySelfLink_def select_def isValid_def split: option.splits)

lemma hasBySelfLink_lookup:
  "hasBySelfLink now store k =
     (case store k of
        None \<Rightarrow> False
      | Some e \<Rightarrow> \<not> now > timeAdded e + msToLive e)"
  by (simp add: hasBySelfLink_def select_def isValid_def split: option.splits)

text \<open>
  Claim C1. For a cache entry whose time to live is exceeded (the current time is past
  \<open>timeAdded + msToLive\<close>), \<open>getBySelfLink\<close> emits nothing and \<open>hasBySelfLink\<close> is
  false.
\<close>

theorem stale_entry_is_not_returned:
  assumes "store k = Some entry"
    and "now > timeAdded entry + msToLive entry"
  shows "getBySelfLink now store k = [] \<and> hasBySelfLink now store k = False"
  using assms by (simp add: getBySelfLink_lookup hasBySelfLink_lookup)

text \<open>
  The stale entry of the test, at the time it was added.
\<close>

theorem stale_entry_is_not_returned_witness:
  "[selfLink \<mapsto> invalidCacheEntry 1700000000000] selfLink
     = Some (invalidCacheEntry 1700000000000)
   \<and> 1700000000000 > timeAdded (invalidCacheEntry 1700000000000)
        + msToLive (invalidCacheEntry 1700000000000)
   \<and> getBySelfLink 1700000000000 [selfLink \<mapsto> invalidCacheEntry 1700000000000] selfLink = []
   \<and> hasBySelfLink 1700000000000 [selfLink \<mapsto> invalidCacheEntry 1700000000000] selfLink
       = False"
proof -
  have a: "[selfLink \<mapsto> invalidCacheEntry 1700000000000] selfLink
     = Some (invalidCacheEntry 1700000000000)"
    by simp
  have b: "1700000000000 > timeAdded (invalidCacheEntry 1700000000000)
        + msToLive (invalidCacheEntry 1700000000000)"
    by (simp add: invalidCacheEntry_def cacheEntry_def)
  from stale_entry_is_not_returned [of "[selfLink \<mapsto> invalidCacheEntry 1700000000000]"
      selfLink "invalidCacheEntry 1700000000000" 1700000000000] a b
  show ?thesis by simp
qed

text \<open>
  Claim C2. For an entry that is cached under the self link and within its time to live,
  \<open>getBySelfLink\<close> emits exactly the cached object, whose self link is the requested
  one when objects are stored under their own self link, and \<open>hasBySelfLink\<close> is true.
  When nothing is cached under the self link, \<open>hasBySelfLink\<close> is false.
\<close>

theorem valid_entry_is_returned:
  "(store k = Some entry \<and> now \<le> timeAdded entry + msToLive entry \<longrightarrow>
      getBySelfLink now store k = [data entry]
      \<and> hasBySelfLink now store k = True
      \<and> (self (data entry) = k \<longrightarrow> map self (getBySelfLink now store k) = [k]))
   \<and> (store k = None \<longrightarrow>
      hasBySelfLink now store k = False \<and> getBySelfLink now store k = [])"
  by (simp add: getBySelfLink_lookup hasBySelfLink_lookup)

text \<open>
  The valid entry of the test, and the empty cache.
\<close>

theorem valid_entry_is_returned_witness:
  "getBySelfLink 1700000000000 [selfLink \<mapsto> cacheEntry 1700000000000] selfLink
     = [objectToCache]
   \<and> map self (getBySelfLink 1700000000000 [selfLink \<mapsto> cacheEntry 1700000000000] selfLink)
     = [selfLink]
   \<and> hasBySelfLink 1700000000000 [selfLink \<mapsto> cacheEntry 1700000000000] selfLink = True
   \<and> hasBySelfLink 1700000000000 Map.empty selfLink = False"
proof -
  let ?store = "[selfLink \<mapsto> cacheEntry 1700000000000]"
  have a: "?store selfLink = Some (cacheEntry 1700000000000)" by simp
  have b: "1700000000000 \<le> timeAdded (cacheEntry 1700000000000)
      + msToLive (cacheEntry 1700000000000)"
    by (simp add: cacheEntry_def)
  have c: "self (data (cacheEntry 1700000000000)) = selfLink"
    "data (cacheEntry 1700000000000) = objectToCache"
    by (simp_all add: cacheEntry_def objectToCache_def)
  have d: "(Map.empty :: ObjectCacheState) selfLink = None" by simp
  from valid_entry_is_returned [of ?store selfLink "cacheEntry 1700000000000" 1700000000000]
    valid_entry_is_returned [of Map.empty selfLink "cacheEntry 1700000000000" 1700000000000]
    a b c d
  show ?thesis by simp
qed

section \<open>Properties of the href of a find-all request\<close>

lemma showInt_examples:
  "showInt 1 = ''1''" "showInt 5 = ''5''" "showInt 10 = ''10''" "showInt (- 1) = ''-1''"
  by code_simp+

text \<open>
  Claim C8. With no options \<open>getFindAllHref\<close> returns the endpoint unchanged. With a
  current page \<open>n\<close> the first parameter after the href is \<open>page=n-1\<close>. With a current
  page, a page size, a sort and a prefix, and no scope, the parameters follow the endpoint
  after one \<^verbatim>\<open>?\<close> in the order page, size, sort (field, comma, direction), startsWith,
  joined by \<^verbatim>\<open>&\<close>.
\<close>

theorem getFindAllHref_query:
  "getFindAllHref gse ep noOptions = Inr ep
   \<and> (currentPage options = Some n
        \<and> (case scopeID options of None \<Rightarrow> Inr ep | Some scope \<Rightarrow> gse scope) = Inr href \<longrightarrow>
        (\<exists>rest. getFindAllHref gse ep options
           = Inr (href @ ''?page='' @ showInt (n - 1) @ rest)
         \<and> (rest = [] \<or> hd rest = CHR ''&'')))
   \<and> getFindAllHref gse ep
        \<lparr>scopeID = None, currentPage = Some n, elementsPerPage = Some sz,
         sortOptions = Some \<lparr>sortField = f, sortDirection = d\<rparr>, startsWith = Some w\<rparr>
      = Inr (ep @ ''?page='' @ showInt (n - 1) @ ''&size='' @ showInt sz
             @ ''&sort='' @ f @ '','' @ d @ ''&startsWith='' @ w)"
  by (auto simp: getFindAllHref_def noOptions_def isNotEmpty_def isEmpty_def Let_def
      split: option.splits)

text \<open>The cases "currentPage provided" and "all options provided" of the test.\<close>

theorem getFindAllHref_query_witness:
  "currentPage (noOptions\<lparr>currentPage := Some 2\<rparr>) = Some 2
   \<and> (case scopeID (noOptions\<lparr>currentPage := Some 2\<rparr>) of
         None \<Rightarrow> Inr endpoint | Some scope \<Rightarrow> getScopedEndpoint scope) = Inr endpoint
   \<and> (\<exists>rest. getFindAllHref getScopedEndpoint endpoint (noOptions\<lparr>currentPage := Some 2\<rparr>)
         = Inr (endpoint @ ''?page=1'' @ rest))
   \<and> getFindAllHref getScopedEndpoint endpoint
       \<lparr>scopeID = None, currentPage = Some 6, elementsPerPage = Some 10,
        sortOptions = Some \<lparr>sortField = ''field1'', sortDirection = ''DESC''\<rparr>,
        startsWith = Some ''ab''\<rparr>
     = Inr ''https://rest.api/core?page=5&size=10&sort=field1,DESC&startsWith=ab''"
proof -
  have a: "currentPage (noOptions\<lparr>currentPage := Some 2\<rparr>) = Some 2"
    by (simp add: noOptions_def)
  have b: "(case scopeID (noOptions\<lparr>currentPage := Some 2\<rparr>) of
         None \<Rightarrow> Inr endpoint | Some scope \<Rightarrow> getScopedEndpoint scope) = Inr endpoint"
    by (simp add: noOptions_def)
  from getFindAllHref_query [where gse = getScopedEndpoint and ep = endpoint
      and options = "noOptions\<lparr>currentPage := Some 2\<rparr>" and href = endpoint and n = 2
      and sz = 10 and f = "''field1''" and d = "''DESC''" and w = "''ab''"] a b
  have page: "\<exists>rest. getFindAllHref getScopedEndpoint endpoint
      (noOptions\<lparr>currentPage := Some 2\<rparr>) = Inr (endpoint @ ''?page=1'' @ rest)"
    by (auto simp: showInt_examples)
  from getFindAllHref_query [where gse = getScopedEndpoint and ep = endpoint
      and options = noOptions and href = endpoint and n = 6
      and sz = 10 and f = "''field1''" and d = "''DESC''" and w = "''ab''"]
  have "getFindAllHref getScopedEndpoint endpoint
       \<lparr>scopeID = None, currentPage = Some 6, elementsPerPage = Some 10,
        sortOptions = Some \<lparr>sortField = ''field1'', sortDirection = ''DESC''\<rparr>,
        startsWith = Some ''ab''\<rparr>
     = Inr ''https://rest.api/core?page=5&size=10&sort=field1,DESC&startsWith=ab''"
    by (simp add: showInt_examples endpoint_def)
  with a b page show ?thesis by blast
qed

text \<open>The remaining cases of the test, run on the model.\<close>

lemma getFindAllHref_test_scopeID:
  "getFindAllHref getScopedEndpoint endpoint (noOptions\<lparr>scopeID := Some ''somevalue''\<rparr>)
     = Inl (ThrownError ''getScopedEndpoint is abstract in DataService'')"
  by (simp add: getFindAllHref_def noOptions_def getScopedEndpoint_def Let_def)

lemma getFindAllHref_test_elementsPerPage:
  "getFindAllHref getScopedEndpoint endpoint (noOptions\<lparr>elementsPerPage := Some 5\<rparr>)
     = Inr (endpoint @ ''?size=5'')"
  by (simp add: getFindAllHref_def noOptions_def isNotEmpty_def isEmpty_def Let_def
      showInt_examples)

lemma getFindAllHref_test_sort:
  "getFindAllHref getScopedEndpoint endpoint
     (noOptions\<lparr>sortOptions := Some \<lparr>sortField = ''field1'', sortDirection = ''ASC''\<rparr>\<rparr>)
     = Inr (endpoint @ ''?sort=field1,ASC'')"
  by (simp add: getFindAllHref_def noOptions_def isNotEmpty_def isEmpty_def Let_def)

lemma getFindAllHref_test_startsWith:
  "getFindAllHref getScopedEndpoint endpoint (noOptions\<lparr>startsWith := Some ''ab''\<rparr>)
     = Inr (endpoint @ ''?startsWith=ab'')"
  by (simp add: getFindAllHref_def noOptions_def isNotEmpty_def isEmpty_def Let_def)

section \<open>Properties of the researcher profile service\<close>

lemma find_first_completed:
  assumes "\<forall>r \<in> set pre. \<not> P r" and "P rd"
  shows "find P (pre @ rd # post) = Some rd"
  using assms by (induction pre) simp_all

lemma response_states:
  "\<not> hasCompleted pendingRD"
  "hasCompleted successRD" "isSuccess successRD"
  "hasCompleted failedRD" "\<not> isSuccess failedRD"
  by (simp_all add: pendingRD_def successRD_def failedRD_def hasCompleted_def
      hasFailed_def hasSucceeded_def isSuccess_def)

text \<open>While no response has completed, \<open>delete\<close> emits nothing.\<close>

lemma delete_nothing_completed:
  assumes "\<forall>r \<in> set (dataService_delete (rpId researcherProfile)). \<not> hasCompleted r"
  shows "delete dataService_delete researcherProfile = []"
proof -
  from assms have "find hasCompleted (dataService_delete (rpId researcherProfile)) = None"
    by (simp add: find_None_iff)
  then show ?thesis
    by (simp add: delete_def getFirstCompletedRemoteData_def)
qed

text \<open>
  Claim C10. When the delete request has a first completed response (the responses before
  it have not completed), \<open>delete\<close> emits exactly one boolean, the \<open>isSuccess\<close> flag of
  that response: it emits true exactly when that response is a success.
\<close>

theorem delete_emits_isSuccess_of_first_completed:
  assumes "dataService_delete (rpId researcherProfile) = pre @ rd # post"
    and "\<forall>r \<in> set pre. \<not> hasCompleted r"
    and "hasCompleted rd"
  shows "delete dataService_delete researcherProfile = [isSuccess rd]
    \<and> (delete dataService_delete researcherProfile = [True] \<longleftrightarrow> state rd = Success)"
  using assms
  by (simp add: delete_def getFirstCompletedRemoteData_def find_first_completed isSuccess_def)

text \<open>
  A deletion that succeeds after a pending response, and one that is refused: later
  responses do not count.
\<close>

theorem delete_emits_isSuccess_of_first_completed_witness:
  "delete (\<lambda>id. [pendingRD, successRD, failedRD]) \<lparr>rpId = ''profile-1'', visible = True\<rparr>
     = [True]
   \<and> delete (\<lambda>id. [pendingRD, failedRD, successRD]) \<lparr>rpId = ''profile-1'', visible = True\<rparr>
     = [False]"
proof -
  let ?rp = "\<lparr>rpId = ''profile-1'', visible = True\<rparr>"
  have p: "\<forall>r \<in> set [pendingRD :: unit RemoteData]. \<not> hasCompleted r"
    by (simp add: response_states)
  have a: "(\<lambda>id. [pendingRD, successRD, failedRD :: unit RemoteData]) (rpId ?rp)
      = [pendingRD] @ successRD # [failedRD]"
    by simp
  have b: "(\<lambda>id. [pendingRD, failedRD, successRD :: unit RemoteData]) (rpId ?rp)
      = [pendingRD] @ failedRD # [successRD]"
    by simp
  from delete_emits_isSuccess_of_first_completed [OF a p response_states(2)]
    delete_emits_isSuccess_of_first_completed [OF b p response_states(4)]
  show ?thesis by (simp add: response_states)
qed

text \<open>
  Claim C9. When the item has no \<^verbatim>\<open>dspace.object.owner\<close> metadata value, or the first one
  has no authority or an empty one, \<open>findByRelatedItem\<close> returns one failed
  \<^verbatim>\<open>RemoteData\<close> and asks the data service for nothing. Otherwise it is
  \<open>findById\<close> of that authority, which asks the data service for exactly that uuid.
\<close>

theorem findByRelatedItem_guard:
  "(metadata item ''dspace.object.owner'' = None
      \<or> metadata item ''dspace.object.owner'' = Some []
      \<or> (\<exists>v vs. metadata item ''dspace.object.owner'' = Some (v # vs)
            \<and> (authority v = None \<or> authority v = Some [])) \<longrightarrow>
      findByRelatedItem dataService_findById item = (createFailedRemoteDataObject, [])
      \<and> list_all hasFailed (fst (findByRelatedItem dataService_findById item))
      \<and> length (fst (findByRelatedItem dataService_findById item)) = 1)
   \<and> (metadata item ''dspace.object.owner'' = Some (v # vs) \<and> authority v = Some uuid
        \<and> uuid \<noteq> [] \<longrightarrow>
      findByRelatedItem dataService_findById item = findById dataService_findById uuid
      \<and> snd (findByRelatedItem dataService_findById item) = [uuid])"
  by (auto simp: findByRelatedItem_def firstMetadata_def isEmpty_def Let_def findById_def
      createFailedRemoteDataObject_def hasFailed_def)

text \<open>An item without an owner, and an item owned by a profile whose lookup succeeds.\<close>

theorem findByRelatedItem_guard_witness:
  "metadata itemWithoutOwner ''dspace.object.owner'' = None
   \<and> findByRelatedItem
         (\<lambda>uuid cached stale. [pendingRD, successRD :: ResearcherProfile RemoteData])
         itemWithoutOwner
       = ([\<lparr>state = Error, errorMessage = None, rdPayload = None, statusCode = None\<rparr>], [])
   \<and> findByRelatedItem
         (\<lambda>uuid cached stale. [pendingRD, successRD :: ResearcherProfile RemoteData])
         itemWithOwner
       = ([successRD], [''profile-1''])"
proof -
  let ?ds = "\<lambda>(uuid :: string) (cached :: bool) (stale :: bool).
    [pendingRD, successRD :: ResearcherProfile RemoteData]"
  let ?v = "\<lparr>mdValue = ''Doe, Jane'', authority = Some ''profile-1''\<rparr>"
  have a: "metadata itemWithoutOwner ''dspace.object.owner'' = None"
    by (simp add: itemWithoutOwner_def)
  have b: "metadata itemWithOwner ''dspace.object.owner'' = Some (?v # [])
      \<and> authority ?v = Some ''profile-1'' \<and> ''profile-1'' \<noteq> []"
    by (simp add: itemWithOwner_def)
  have c: "findById ?ds ''profile-1'' = ([successRD], [''profile-1''])"
    by (simp add: findById_def getAllCompletedRemoteData_def response_states)
  from findByRelatedItem_guard [where item = itemWithoutOwner and dataService_findById = ?ds
      and v = ?v and vs = "[]" and uuid = "''profile-1''"]
    findByRelatedItem_guard [where item = itemWithOwner and dataService_findById = ?ds
      and v = ?v and vs = "[]" and uuid = "''profile-1''"] a b c
  show ?thesis by (simp add: createFailedRemoteDataObject_def)
qed

end
